theory Spec2Isabelle
  imports Complex_Main "HOL-Library.Log_Nat"
begin

section \<open>Data model (types.ts)\<close>

text \<open>
  The five-column variant of \<^verbatim>\<open>ColumnId\<close>:
  \<^verbatim>\<open>'backlog' | 'todo' | 'in-progress' | 'blocked' | 'done'\<close>.
\<close>

datatype ColumnId = Backlog | Todo | InProgress | Blocked | Done

text \<open>
  \<^verbatim>\<open>interface Attachment { name: string; type: string; data: string }\<close>.
  Field selectors are global constants in HOL, so the fields carry the name of their
  interface as a prefix.
\<close>

record Attachment =
  att_name :: string
  att_type :: string
  att_data :: string

text \<open>
  \<^verbatim>\<open>interface Task { id; column; title; description; points; attachments? }\<close>.
  The application builds tasks with \<^verbatim>\<open>points: undefined\<close> (the forms pass
  \<^verbatim>\<open>points !== '' ? Number(points) : undefined\<close>), so \<open>points\<close> is optional here;
  a present value is an integer (the forms use \<^verbatim>\<open>parseInt\<close>), modelled exactly as
  an \<open>int\<close>. The forms keep it from being negative (\<^verbatim>\<open>min="0"\<close>); the type does
  not, so a theorem that needs points to be non-negative says so. The field
  \<^verbatim>\<open>id\<close> is \<open>task_id\<close> here, \<open>id\<close> being the identity function of HOL.
\<close>

record Task =
  task_id :: string
  column :: ColumnId
  title :: string
  description :: string
  points :: "int option"
  attachments :: "Attachment list option"

text \<open>
  \<^verbatim>\<open>interface Sprint { id; name; startDate: Date; endDate: Date; goal }\<close>.
  A \<^verbatim>\<open>Date\<close> is modelled by its time value \<^verbatim>\<open>getTime()\<close>: the integer number
  of milliseconds since the epoch (valid dates only).
\<close>

record Sprint =
  sprint_id :: string
  sprint_name :: string
  startDate :: int
  endDate :: int
  goal :: string

section \<open>Initial state (App.tsx, initialTasks and initialSprint)\<close>

text \<open>
  The board the application starts with. The sprint runs from
  \<^verbatim>\<open>2024-07-20T00:00:00Z\<close> to \<^verbatim>\<open>2024-08-03T00:00:00Z\<close>, given by their time
  values.
\<close>

definition initialTasks :: "Task list" where
  "initialTasks =
     [\<lparr>task_id = ''task-1'', column = Backlog, title = ''User Authentication Flow'',
        description = ''Design and implement the complete user login and registration process.'',
        points = Some 8, attachments = Some []\<rparr>,
      \<lparr>task_id = ''task-2'', column = Backlog, title = ''Setup CI/CD Pipeline'',
        description = ''Configure GitHub Actions for automated testing and deployment.'',
        points = None, attachments = Some []\<rparr>,
      \<lparr>task_id = ''task-3'', column = Todo, title = ''Create Database Schema'',
        description = ''Define the initial database schema for users and projects.'',
        points = Some 5, attachments = Some []\<rparr>,
      \<lparr>task_id = ''task-4'', column = InProgress, title = ''Develop Landing Page'',
        description = ''Build the main marketing landing page with React and Tailwind.'',
        points = Some 3, attachments = Some []\<rparr>,
      \<lparr>task_id = ''task-6'', column = Blocked, title = ''API Integration'',
        description = ''Waiting for backend team to provide the new endpoint.'',
        points = Some 5, attachments = Some []\<rparr>,
      \<lparr>task_id = ''task-5'', column = Done, title = ''Project Scaffolding'',
        description = ''Initialize the React project with TypeScript and basic dependencies.'',
        points = Some 2, attachments = Some []\<rparr>]"

definition initialSprint :: Sprint where
  "initialSprint =
     \<lparr>sprint_id = ''sprint-1'', sprint_name = ''Sprint 1'',
      startDate = 1721433600000, endDate = 1722643200000,
      goal = ''Launch the initial version of the marketing website and user authentication.''\<rparr>"

section \<open>Board projection (App.tsx, tasksByColumn)\<close>

text \<open>
  \<^verbatim>\<open>
  tasks.reduce((acc, task) => {
    if (!acc[task.column]) { acc[task.column] = []; }
    acc[task.column].push(task);
    return acc;
  }, {} as Record<ColumnId, Task[]>)
  \<close>
  The accumulator object is a partial map from column to task list; a key that was never
  assigned reads as \<^verbatim>\<open>undefined\<close>, here \<open>None\<close>. An array is truthy even
  when empty, so the guard fires exactly on an absent key; after it the key is present,
  and the \<open>None\<close> branch of the second lookup is never taken.
\<close>

definition tasksByColumn_step ::
    "(ColumnId \<rightharpoonup> Task list) \<Rightarrow> Task \<Rightarrow> (ColumnId \<rightharpoonup> Task list)" where
  "tasksByColumn_step acc task =
     (let acc1 = (case acc (column task) of None \<Rightarrow> acc(column task \<mapsto> []) | Some _ \<Rightarrow> acc)
      in case acc1 (column task) of
           None \<Rightarrow> acc1
         | Some xs \<Rightarrow> acc1(column task \<mapsto> xs @ [task]))"

definition tasksByColumn :: "Task list \<Rightarrow> (ColumnId \<rightharpoonup> Task list)" where
  "tasksByColumn tasks = foldl tasksByColumn_step Map.empty tasks"

text \<open>
  The view reads the projection as \<^verbatim>\<open>tasksByColumn[column.id] || []\<close>
  (a task array is never falsy, so only \<^verbatim>\<open>undefined\<close> takes the default).
\<close>

definition columnTasks :: "Task list \<Rightarrow> ColumnId \<Rightarrow> Task list" where
  "columnTasks tasks c = (case tasksByColumn tasks c of None \<Rightarrow> [] | Some xs \<Rightarrow> xs)"

section \<open>State mutators (App.tsx)\<close>

text \<open>
  \<^verbatim>\<open>Array.prototype.findIndex\<close>: the index of the first element satisfying the
  predicate, \<^verbatim>\<open>-1\<close> (here \<open>None\<close>) when there is none.
\<close>

fun findIndex :: "('a \<Rightarrow> bool) \<Rightarrow> 'a list \<Rightarrow> nat option" where
  "findIndex p [] = None"
| "findIndex p (x # xs) = (if p x then Some 0 else map_option Suc (findIndex p xs))"

text \<open>
  \<^verbatim>\<open>
  produce(draft => {
    const task = draft.find(t => t.id === taskId);
    if (task) { task.column = targetColumn; }
  })
  \<close>
  \<^verbatim>\<open>find\<close> returns the first task with that id, and the assignment mutates it where
  it sits in the draft: the element at the index of the first match is replaced by itself
  with the new column, and the array is otherwise untouched.
\<close>

definition moveTask :: "string \<Rightarrow> ColumnId \<Rightarrow> Task list \<Rightarrow> Task list" where
  "moveTask taskId targetColumn draft =
     (case findIndex (\<lambda>t. task_id t = taskId) draft of
        None \<Rightarrow> draft
      | Some i \<Rightarrow> draft[i := (draft ! i)\<lparr>column := targetColumn\<rparr>])"

text \<open>
  Decimal rendering of a non-negative integer, as the template literal
  \<^verbatim>\<open>`task-${Date.now()}`\<close> does for the clock value.
\<close>

fun string_of_nat :: "nat \<Rightarrow> string" where
  "string_of_nat n =
     (if n < 10 then [char_of (48 + n)]
      else string_of_nat (n div 10) @ [char_of (48 + n mod 10)])"

declare string_of_nat.simps [simp del]

text \<open>The argument of \<^verbatim>\<open>handleAddTask\<close>: \<^verbatim>\<open>{ title; description; points? }\<close>.\<close>

record TaskData =
  td_title :: string
  td_description :: string
  td_points :: "int option"

text \<open>
  \<^verbatim>\<open>
  const newTask: Task = { id: `task-${Date.now()}`, column: 'backlog', attachments: [], ...taskData };
  setTasks(produce(draft => { draft.push(newTask); }));
  \<close>
  The clock value \<^verbatim>\<open>Date.now()\<close> is the parameter \<open>now\<close>. The handlers
  also reset flags of the view (\<^verbatim>\<open>setShowNewTaskModal(false)\<close>,
  \<^verbatim>\<open>setEditingTask(null)\<close>, \<^verbatim>\<open>setShowSprintModal(false)\<close>), which are not part
  of the task and sprint state modelled here.
\<close>

definition handleAddTask :: "nat \<Rightarrow> TaskData \<Rightarrow> Task list \<Rightarrow> Task list" where
  "handleAddTask now taskData draft =
     draft @ [\<lparr>task_id = ''task-'' @ string_of_nat now, column = Backlog,
               title = td_title taskData, description = td_description taskData,
               points = td_points taskData, attachments = Some []\<rparr>]"

text \<open>
  \<^verbatim>\<open>
  const taskIndex = draft.findIndex(t => t.id === updatedTask.id);
  if (taskIndex !== -1) { draft[taskIndex] = updatedTask; }
  \<close>
\<close>

definition handleUpdateTask :: "Task \<Rightarrow> Task list \<Rightarrow> Task list" where
  "handleUpdateTask updatedTask draft =
     (case findIndex (\<lambda>t. task_id t = task_id updatedTask) draft of
        None \<Rightarrow> draft
      | Some taskIndex \<Rightarrow> draft[taskIndex := updatedTask])"

text \<open>
  \<^verbatim>\<open>
  const taskIndex = draft.findIndex(t => t.id === taskId);
  if (taskIndex !== -1) { draft.splice(taskIndex, 1); }
  \<close>
\<close>

definition handleDeleteTask :: "string \<Rightarrow> Task list \<Rightarrow> Task list" where
  "handleDeleteTask taskId draft =
     (case findIndex (\<lambda>t. task_id t = taskId) draft of
        None \<Rightarrow> draft
      | Some taskIndex \<Rightarrow> take taskIndex draft @ drop (Suc taskIndex) draft)"

text \<open>\<^verbatim>\<open>setSprint(updatedSprint)\<close>: the sprint state is replaced by the argument.\<close>

definition handleUpdateSprint :: "Sprint \<Rightarrow> Sprint \<Rightarrow> Sprint" where
  "handleUpdateSprint updatedSprint sprint = updatedSprint"

subsection \<open>The new-task form (NewTaskModal.handleSubmit)\<close>

text \<open>
  \<^verbatim>\<open>String.prototype.trim\<close> strips white space and line terminators from both
  ends. A \<open>char\<close> is one code unit below 256, so the strippable characters in range are
  TAB, LF, VT, FF, CR, SPACE and NBSP (those beyond U+00FF are outside this model).
\<close>

definition isWhiteSpace :: "char \<Rightarrow> bool" where
  "isWhiteSpace ch \<longleftrightarrow> ch \<in> set [CHR 0x09, CHR 0x0A, CHR 0x0B, CHR 0x0C, CHR 0x0D, CHR 0x20, CHR 0xA0]"

definition trim :: "string \<Rightarrow> string" where
  "trim s = rev (dropWhile isWhiteSpace (rev (dropWhile isWhiteSpace s)))"

text \<open>The form state: \<^verbatim>\<open>points\<close> is \<^verbatim>\<open>''\<close> (here \<open>None\<close>) or a number.\<close>

record NewTaskForm =
  form_title :: string
  form_description :: string
  form_points :: "int option"

text \<open>
  \<^verbatim>\<open>
  if (!title.trim() || !description.trim()) { alert(...); return; }
  onAddTask({ title, description, points: points !== '' ? Number(points) : undefined });
  \<close>
  The callback \<open>onAddTask\<close> acts on the state \<open>s\<close>; the early return leaves it as it is.
\<close>

definition NewTaskModal_handleSubmit ::
    "(TaskData \<Rightarrow> 's \<Rightarrow> 's) \<Rightarrow> NewTaskForm \<Rightarrow> 's \<Rightarrow> 's" where
  "NewTaskModal_handleSubmit onAddTask form s =
     (if trim (form_title form) = [] \<or> trim (form_description form) = [] then s
      else onAddTask \<lparr>td_title = form_title form, td_description = form_description form,
                       td_points = form_points form\<rparr> s)"

text \<open>
  The application mounts the form with \<^verbatim>\<open>onAddTask={handleAddTask}\<close>: this is the
  AddTask operation as the user reaches it.
\<close>

definition AddTask :: "nat \<Rightarrow> NewTaskForm \<Rightarrow> Task list \<Rightarrow> Task list" where
  "AddTask now form tasks = NewTaskModal_handleSubmit (handleAddTask now) form tasks"

section \<open>Burndown calculator (App.tsx, sprintDurationDays and burndownData)\<close>

text \<open>
  \<^verbatim>\<open>
  const diffTime = Math.abs(sprint.endDate.getTime() - sprint.startDate.getTime());
  return Math.ceil(diffTime / (1000 * 60 * 60 * 24));
  \<close>
  The time values are integers and the result is the ceiling of a non-negative quotient,
  hence a natural number.
\<close>

definition sprintDurationDays :: "Sprint \<Rightarrow> nat" where
  "sprintDurationDays sprint =
     (let diffTime = \<bar>endDate sprint - startDate sprint\<bar>
      in nat \<lceil>(of_int diffTime :: rat) / (1000 * 60 * 60 * 24)\<rceil>)"

text \<open>
  \<^verbatim>\<open>(task.points || 0)\<close>: an absent value counts as 0 (and 0 is 0 either way).
\<close>

definition pts :: "Task \<Rightarrow> int" where
  "pts task = (case points task of None \<Rightarrow> 0 | Some p \<Rightarrow> p)"

text \<open>
  \<^verbatim>\<open>
  const sprintTasks = tasks.filter(t => t.column !== 'backlog');
  const totalPoints = sprintTasks.reduce((sum, task) => sum + (task.points || 0), 0);
  \<close>
\<close>

definition totalPoints :: "Task list \<Rightarrow> int" where
  "totalPoints tasks =
     (let sprintTasks = filter (\<lambda>t. column t \<noteq> Backlog) tasks
      in foldl (\<lambda>sum task. sum + pts task) 0 sprintTasks)"

text \<open>
  \<^verbatim>\<open>
  tasks.filter(t => t.column === 'done').reduce((sum, task) => sum + (task.points || 0), 0)
  \<close>
\<close>

definition completedPoints :: "Task list \<Rightarrow> int" where
  "completedPoints tasks =
     foldl (\<lambda>sum task. sum + pts task) 0 (filter (\<lambda>t. column t = Done) tasks)"

text \<open>
  A JavaScript number is an IEEE 754 double. The integers of the calculation (points
  and their sums, day counts, time values) are modelled by \<open>int\<close> and \<open>nat\<close>: up to
  \<open>2^53\<close> in magnitude every integer is a double, and sums and differences that
  stay in this range are exact. The quotient \<^verbatim>\<open>pointsPerDay\<close> and the ideal line are not integers; there
  each arithmetic operation yields the double nearest to the exact result, a tie going to
  the even significand. A finite double is modelled by the rational number it denotes (the
  double printed as \<^verbatim>\<open>0.6\<close> is \<open>5404319552844595 / 2^53\<close>). Overflow to
  \<^verbatim>\<open>Infinity\<close> (magnitudes from \<open>2^1024\<close>) and \<^verbatim>\<open>NaN\<close> are outside the model.
\<close>

text \<open>The nearest integer, a tie going to the even one.\<close>

definition roundHalfEven :: "rat \<Rightarrow> int" where
  "roundHalfEven y =
     (let f = \<lfloor>y\<rfloor>; r = y - of_int f
      in if r < 1 / 2 then f else if 1 / 2 < r then f + 1 else if even f then f else f + 1)"

text \<open>
  Doubles are the multiples of \<open>2^-1074\<close> with a significand of 53 bits. For a
  magnitude counted in units of \<open>2^-1074\<close>, \<open>doubleQuantum\<close> is the number of low
  bits that do not fit: none up to \<open>2^53\<close> units (subnormal numbers and the first
  binade), the bit length less 53 beyond.
\<close>

definition doubleQuantum :: "rat \<Rightarrow> nat" where
  "doubleQuantum X = nat (bitlen \<lfloor>X\<rfloor> - 53)"

definition roundSignificand :: "rat \<Rightarrow> rat" where
  "roundSignificand X =
     of_int (roundHalfEven (X / 2 ^ doubleQuantum X)) * 2 ^ doubleQuantum X"

text \<open>Rounding to the nearest double, ties to even; the sign is kept aside.\<close>

definition toDouble :: "rat \<Rightarrow> rat" where
  "toDouble x = sgn x * (roundSignificand (\<bar>x\<bar> * 2 ^ 1074) / 2 ^ 1074)"

text \<open>
  \<^verbatim>\<open>totalPoints > 0 && sprintDurationDays > 0 ? totalPoints / sprintDurationDays : 0\<close>
\<close>

definition pointsPerDay :: "int \<Rightarrow> nat \<Rightarrow> rat" where
  "pointsPerDay totalPts days =
     (if totalPts > 0 \<and> days > 0 then toDouble (of_int totalPts / of_nat days) else 0)"

text \<open>
  \<^verbatim>\<open>Math.round\<close>: the integer nearest to its argument, a tie going up. The result
  is exact, not the rounded sum \<^verbatim>\<open>x + 0.5\<close>.
\<close>

definition Math_round :: "rat \<Rightarrow> int" where
  "Math_round x = \<lfloor>x + 1 / 2\<rfloor>"

record BurndownPoint =
  day :: nat
  remaining :: int
  ideal :: rat

text \<open>
  The element pushed by the loop body at index \<open>i\<close>:
  \<^verbatim>\<open>
  const completedPoints = tasks.filter(...).reduce(...);
  data.push({ day: i, remaining: totalPoints - completedPoints,
              ideal: Math.max(0, Math.round((totalPoints - (pointsPerDay * i)) * 10) / 10) });
  \<close>
  (the \<^verbatim>\<open>date\<close> computed at the head of the body is never read). The product,
  the difference, the tenfold and the tenth are each rounded to a double.
\<close>

definition burndownEntry :: "Task list \<Rightarrow> int \<Rightarrow> rat \<Rightarrow> nat \<Rightarrow> BurndownPoint" where
  "burndownEntry tasks totalPts perDay i =
     \<lparr>day = i,
      remaining = totalPts - completedPoints tasks,
      ideal = max 0 (toDouble (of_int (Math_round
                (toDouble (toDouble (of_int totalPts - toDouble (perDay * of_nat i)) * 10))) / 10))\<rparr>"

text \<open>
  \<^verbatim>\<open>for (let i = 1; i <= sprintDurationDays; i++) { ... data.push(...) }\<close>
\<close>

function burndownLoop ::
    "Task list \<Rightarrow> int \<Rightarrow> rat \<Rightarrow> nat \<Rightarrow> nat \<Rightarrow> BurndownPoint list \<Rightarrow> BurndownPoint list" where
  "burndownLoop tasks totalPts perDay days i data =
     (if i \<le> days
      then burndownLoop tasks totalPts perDay days (i + 1)
             (data @ [burndownEntry tasks totalPts perDay i])
      else data)"
  by pat_completeness auto
termination
  by (relation "measure (\<lambda>(tasks, totalPts, perDay, days, i, data). Suc days - i)") auto

declare burndownLoop.simps [simp del]

definition burndownData :: "Task list \<Rightarrow> Sprint \<Rightarrow> BurndownPoint list" where
  "burndownData tasks sprint =
     (let totalPts = totalPoints tasks;
          data = [\<lparr>day = 0, remaining = totalPts, ideal = of_int totalPts\<rparr>];
          perDay = pointsPerDay totalPts (sprintDurationDays sprint)
      in burndownLoop tasks totalPts perDay (sprintDurationDays sprint) 1 data)"

section \<open>AI gateway client (services/geminiService.ts, analyzeTaskAttachments)\<close>

text \<open>A thrown \<^verbatim>\<open>new Error(message)\<close>; a failed request throws one as well.\<close>

datatype error = Error string

text \<open>
  The request body \<^verbatim>\<open>{ model, contents: { parts: [textPart, ...fileParts] } }\<close>:
  a part is \<^verbatim>\<open>{ text }\<close> or \<^verbatim>\<open>{ inlineData: { data, mimeType } }\<close>.
\<close>

datatype Part = TextPart string | InlineDataPart string string

record GenerateContentRequest =
  model :: string
  parts :: "Part list"

text \<open>
  What the module keeps and what it has done to the outside: \<open>ai\<close> is the module-level
  client (\<^verbatim>\<open>let ai: GoogleGenAI | undefined\<close>, holding the key it was built with),
  \<open>requests\<close> lists the requests sent to the service so far.
\<close>

record GatewayState =
  ai :: "string option"
  requests :: "GenerateContentRequest list"

text \<open>
  \<^verbatim>\<open>
  if (!ai) {
    const API_KEY = process.env.API_KEY;
    if (!API_KEY) { throw new Error("API_KEY environment variable not set. ..."); }
    ai = new GoogleGenAI({ apiKey: API_KEY });
  }
  return ai;
  \<close>
  The environment variable is the parameter \<open>API_KEY\<close>; an empty string is falsy.
\<close>

definition getAiClient :: "string option \<Rightarrow> GatewayState \<Rightarrow> (error + string) \<times> GatewayState" where
  "getAiClient API_KEY st =
     (case ai st of
        Some client \<Rightarrow> (Inr client, st)
      | None \<Rightarrow>
          (case API_KEY of
             None \<Rightarrow> (Inl (Error ''API_KEY environment variable not set. Please configure it to use AI features.''), st)
           | Some k \<Rightarrow>
               if k = [] then (Inl (Error ''API_KEY environment variable not set. Please configure it to use AI features.''), st)
               else (Inr k, st\<lparr>ai := Some k\<rparr>)))"

text \<open>\<^verbatim>\<open>String.prototype.split\<close> with a one-character separator.\<close>

fun js_split :: "char \<Rightarrow> string \<Rightarrow> string list" where
  "js_split sep [] = [[]]"
| "js_split sep (c # cs) =
     (if c = sep then [] # js_split sep cs
      else (case js_split sep cs of [] \<Rightarrow> [[c]] | w # ws \<Rightarrow> (c # w) # ws))"

text \<open>
  \<^verbatim>\<open>
  const base64Data = file.data.split(',')[1];
  if (!base64Data) { throw new Error(`Invalid base64 data for file ${file.name}`); }
  return { inlineData: { data: base64Data, mimeType: file.type } };
  \<close>
  The second field is \<^verbatim>\<open>undefined\<close> when the data holds no comma and may be the
  empty string; both are falsy.
\<close>

definition filePart :: "Attachment \<Rightarrow> error + Part" where
  "filePart file =
     (case js_split CHR '','' (att_data file) of
        _ # base64Data # _ \<Rightarrow>
          if base64Data = [] then Inl (Error (''Invalid base64 data for file '' @ att_name file))
          else Inr (InlineDataPart base64Data (att_type file))
      | _ \<Rightarrow> Inl (Error (''Invalid base64 data for file '' @ att_name file)))"

text \<open>\<^verbatim>\<open>attachments.map(file => ...)\<close>: the first throw ends the map.\<close>

fun fileParts :: "Attachment list \<Rightarrow> error + Part list" where
  "fileParts [] = Inr []"
| "fileParts (file # rest) =
     (case filePart file of
        Inl e \<Rightarrow> Inl e
      | Inr p \<Rightarrow> (case fileParts rest of Inl e \<Rightarrow> Inl e | Inr ps \<Rightarrow> Inr (p # ps)))"

text \<open>The template literal of the prompt, with the task title spliced in.\<close>

definition analysisPrompt :: "string \<Rightarrow> string" where
  "analysisPrompt taskTitle =
     ''\<newline>        You are an expert project manager. Analyze the attached file(s) for the task titled ''
     @ [CHR 0x22] @ taskTitle @ [CHR 0x22] @ ''. \<newline>''
     @ ''        Based on the content of the files, provide a concise summary and a suggested project workflow or a list of sub-tasks.\<newline>''
     @ ''        Format your response clearly with headings for '' @ [CHR 0x27] @ ''Summary'' @ [CHR 0x27]
     @ '' and '' @ [CHR 0x27] @ ''Workflow/Sub-tasks'' @ [CHR 0x27] @ ''.\<newline>    ''"

text \<open>
  \<^verbatim>\<open>
  if (attachments.length === 0) { return "No attachments to analyze."; }
  const prompt = ...; const fileParts = attachments.map(...); const textPart = { text: prompt };
  try {
    const ai = getAiClient();
    const response = await ai.models.generateContent({ model: "gemini-2.5-flash",
                                                       contents: { parts: [textPart, ...fileParts] } });
    return response.text;
  } catch (error) { console.error(...); throw error; }
  \<close>
  The hosted service is the parameter \<open>generateContent\<close>: the text of its response to
  a request, or the error of a failed call; the parameter \<open>attachments'\<close> is the
  source's \<^verbatim>\<open>attachments\<close>. The promise is modelled by its outcome:
  \<open>Inr\<close> the value it resolves to, \<open>Inl\<close> the error it rejects with.
\<close>

definition analyzeTaskAttachments ::
    "string option \<Rightarrow> (GenerateContentRequest \<Rightarrow> error + string) \<Rightarrow> string \<Rightarrow> Attachment list
       \<Rightarrow> GatewayState \<Rightarrow> (error + string) \<times> GatewayState" where
  "analyzeTaskAttachments API_KEY generateContent taskTitle attachments' st =
     (if length attachments' = 0 then (Inr ''No attachments to analyze.'', st)
      else
        (case fileParts attachments' of
           Inl e \<Rightarrow> (Inl e, st)
         | Inr ps \<Rightarrow>
             (case getAiClient API_KEY st of
                (Inl e, st1) \<Rightarrow> (Inl e, st1)
              | (Inr client, st1) \<Rightarrow>
                  (let request = \<lparr>model = ''gemini-2.5-flash'',
                                   parts = TextPart (analysisPrompt taskTitle) # ps\<rparr>;
                       st2 = st1\<lparr>requests := requests st1 @ [request]\<rparr>
                   in (generateContent request, st2)))))"

section \<open>Board projection: proofs\<close>

lemma tasksByColumn_step_same:
  "tasksByColumn_step acc task (column task) =
     Some ((case acc (column task) of None \<Rightarrow> [] | Some xs \<Rightarrow> xs) @ [task])"
  by (simp add: tasksByColumn_step_def Let_def split: option.splits)

lemma tasksByColumn_step_other:
  "c \<noteq> column task \<Longrightarrow> tasksByColumn_step acc task c = acc c"
  by (simp add: tasksByColumn_step_def Let_def split: option.splits)

lemma foldl_tasksByColumn_step:
  "foldl tasksByColumn_step acc tasks c =
     (if filter (\<lambda>t. column t = c) tasks = [] then acc c
      else Some ((case acc c of None \<Rightarrow> [] | Some xs \<Rightarrow> xs) @ filter (\<lambda>t. column t = c) tasks))"
proof (induction tasks arbitrary: acc)
  case Nil
  show ?case by simp
next
  case (Cons t ts)
  show ?case
  proof (cases "column t = c")
    case True
    then have "tasksByColumn_step acc t c =
        Some ((case acc c of None \<Rightarrow> [] | Some xs \<Rightarrow> xs) @ [t])"
      using tasksByColumn_step_same [of acc t] by simp
    with True show ?thesis by (simp add: Cons.IH)
  next
    case False
    then have "tasksByColumn_step acc t c = acc c"
      using tasksByColumn_step_other [of c t acc] by simp
    with False show ?thesis by (simp add: Cons.IH)
  qed
qed

lemma tasksByColumn_eq:
  "tasksByColumn tasks c =
     (if filter (\<lambda>t. column t = c) tasks = [] then None
      else Some (filter (\<lambda>t. column t = c) tasks))"
  by (simp add: tasksByColumn_def foldl_tasksByColumn_step)

lemma columnTasks_eq_filter: "columnTasks tasks c = filter (\<lambda>t. column t = c) tasks"
  by (simp add: columnTasks_def tasksByColumn_eq)

text \<open>
  C1 (as stated, refuted): the projection of the empty task sequence has no entry for
  the backlog column; the key is absent, not mapped to an empty sequence.
\<close>

theorem tasksByColumn_absent_counterexample:
  "tasksByColumn [] Backlog = None \<and> tasksByColumn [] Backlog \<noteq> Some []"
  by (simp add: tasksByColumn_def)

text \<open>
  C1 (amended): for every task sequence and every column, the projection maps the column
  to exactly the tasks of that column in their original relative order when there is at
  least one such task, and has no entry for the column otherwise; the view's lookup
  \<^verbatim>\<open>tasksByColumn[C] || []\<close> yields the tasks of the column in original order in
  every case, the empty sequence when there is none.
\<close>

theorem tasksByColumn_filter:
  "tasksByColumn tasks c =
     (if filter (\<lambda>t. column t = c) tasks = [] then None
      else Some (filter (\<lambda>t. column t = c) tasks))
   \<and> columnTasks tasks c = filter (\<lambda>t. column t = c) tasks"
  by (simp add: tasksByColumn_eq columnTasks_eq_filter)

text \<open>
  On the initial board the backlog holds task-1 and task-2 in that order; after
  deleting the only blocked task, the blocked column has no entry and reads as empty.
\<close>

theorem tasksByColumn_filter_witness:
  "map task_id (the (tasksByColumn initialTasks Backlog)) = [''task-1'', ''task-2'']
   \<and> tasksByColumn (handleDeleteTask ''task-6'' initialTasks) Blocked = None
   \<and> columnTasks (handleDeleteTask ''task-6'' initialTasks) Blocked = []"
  using tasksByColumn_filter [of initialTasks Backlog]
    tasksByColumn_filter [of "handleDeleteTask ''task-6'' initialTasks" Blocked]
  by (simp add: initialTasks_def handleDeleteTask_def)

section \<open>State mutators: proofs\<close>

lemma findIndex_None_iff: "findIndex p xs = None \<longleftrightarrow> (\<forall>x\<in>set xs. \<not> p x)"
  by (induction xs) auto

lemma findIndex_Some_split:
  "findIndex p xs = Some i \<Longrightarrow>
     \<exists>pre x post. xs = pre @ x # post \<and> length pre = i \<and> p x \<and> (\<forall>y\<in>set pre. \<not> p y)"
proof (induction xs arbitrary: i)
  case Nil
  then show ?case by simp
next
  case (Cons a xs)
  show ?case
  proof (cases "p a")
    case True
    with Cons.prems have "i = 0" by simp
    with True show ?thesis by (intro exI [of _ "[]"] exI [of _ a] exI [of _ xs]) simp
  next
    case False
    with Cons.prems obtain j where j: "findIndex p xs = Some j" and i: "i = Suc j"
      by auto
    from Cons.IH [OF j] obtain pre x post where
      "xs = pre @ x # post" "length pre = j" "p x" "\<forall>y\<in>set pre. \<not> p y"
      by blast
    with False i show ?thesis
      by (intro exI [of _ "a # pre"] exI [of _ x] exI [of _ post]) simp
  qed
qed

lemma findIndex_first:
  "p x \<Longrightarrow> \<forall>y\<in>set pre. \<not> p y \<Longrightarrow> findIndex p (pre @ x # post) = Some (length pre)"
  by (induction pre) auto

lemma findIndex_task_id_first:
  assumes "task_id t = taskId" and "taskId \<notin> task_id ` set pre"
  shows "findIndex (\<lambda>x. task_id x = taskId) (pre @ t # post) = Some (length pre)"
  using assms by (intro findIndex_first) (simp, metis imageI)

lemma moveTask_first:
  assumes "task_id t = taskId" and "taskId \<notin> task_id ` set pre"
  shows "moveTask taskId c (pre @ t # post) = pre @ t\<lparr>column := c\<rparr> # post"
  using findIndex_task_id_first [OF assms, of post] by (simp add: moveTask_def)

lemma handleUpdateTask_first:
  assumes "task_id t = task_id u" and "task_id u \<notin> task_id ` set pre"
  shows "handleUpdateTask u (pre @ t # post) = pre @ u # post"
  using findIndex_task_id_first [OF assms, of post] by (simp add: handleUpdateTask_def)

lemma handleDeleteTask_first:
  assumes "task_id t = taskId" and "taskId \<notin> task_id ` set pre"
  shows "handleDeleteTask taskId (pre @ t # post) = pre @ post"
  using findIndex_task_id_first [OF assms, of post] by (simp add: handleDeleteTask_def)

lemma string_of_nat_clock: "string_of_nat 1730000000000 = ''1730000000000''"
  by (simp add: string_of_nat.simps char_of_def bit_Suc_0_iff)

text \<open>
  C4 (as stated, refuted): with task a in the to-do column listed before task b in the
  done column, moving a to done leaves it where it is in the task array, so the done
  column reads a, b: the moved task comes first, not last.
\<close>

theorem moveTask_not_last_counterexample:
  "columnTasks (moveTask ''a'' Done
      [\<lparr>task_id = ''a'', column = Todo, title = ''A'', description = ''x'',
         points = None, attachments = None\<rparr>,
       \<lparr>task_id = ''b'', column = Done, title = ''B'', description = ''y'',
         points = None, attachments = None\<rparr>]) Done
   = [\<lparr>task_id = ''a'', column = Done, title = ''A'', description = ''x'',
         points = None, attachments = None\<rparr>,
      \<lparr>task_id = ''b'', column = Done, title = ''B'', description = ''y'',
         points = None, attachments = None\<rparr>]
   \<and> last (columnTasks (moveTask ''a'' Done
      [\<lparr>task_id = ''a'', column = Todo, title = ''A'', description = ''x'',
         points = None, attachments = None\<rparr>,
       \<lparr>task_id = ''b'', column = Done, title = ''B'', description = ''y'',
         points = None, attachments = None\<rparr>]) Done)
     \<noteq> \<lparr>task_id = ''a'', column = Done, title = ''A'', description = ''x'',
         points = None, attachments = None\<rparr>"
  by (simp add: moveTask_def columnTasks_def tasksByColumn_def tasksByColumn_step_def)

text \<open>
  C4 (amended): for every task sequence containing a task with id t, MoveTask(t,
  targetColumn) changes nothing but the column of the first task with that id, which
  keeps its position in the task sequence; in the board projection of the result the
  task stands in targetColumn's sub-sequence after the target-column tasks that precede
  it in the task sequence and before those that follow it (so at the end only when no
  later task is in targetColumn).
\<close>

theorem moveTask_position:
  assumes "taskId \<in> task_id ` set tasks"
  shows "\<exists>pre t post.
           tasks = pre @ t # post \<and> task_id t = taskId \<and> taskId \<notin> task_id ` set pre
         \<and> moveTask taskId targetColumn tasks = pre @ t\<lparr>column := targetColumn\<rparr> # post
         \<and> columnTasks (moveTask taskId targetColumn tasks) targetColumn
             = filter (\<lambda>x. column x = targetColumn) pre
               @ t\<lparr>column := targetColumn\<rparr>
               # filter (\<lambda>x. column x = targetColumn) post"
proof -
  from assms have "\<exists>x\<in>set tasks. task_id x = taskId" by auto
  then obtain pre t post where
    split: "tasks = pre @ t # post" "task_id t = taskId" "\<forall>y\<in>set pre. task_id y \<noteq> taskId"
    by (auto simp: split_list_first_prop_iff)
  then have fresh: "taskId \<notin> task_id ` set pre" by auto
  have moved: "moveTask taskId targetColumn tasks = pre @ t\<lparr>column := targetColumn\<rparr> # post"
    using moveTask_first [OF split(2) fresh] split(1) by simp
  have "columnTasks (pre @ t\<lparr>column := targetColumn\<rparr> # post) targetColumn
          = filter (\<lambda>x. column x = targetColumn) pre
            @ t\<lparr>column := targetColumn\<rparr>
            # filter (\<lambda>x. column x = targetColumn) post"
    by (simp add: columnTasks_eq_filter)
  with split fresh moved show ?thesis by metis
qed

theorem moveTask_position_witness:
  "''task-3'' \<in> task_id ` set initialTasks
   \<and> (\<exists>pre t post.
           initialTasks = pre @ t # post \<and> task_id t = ''task-3''
         \<and> ''task-3'' \<notin> task_id ` set pre
         \<and> moveTask ''task-3'' Done initialTasks = pre @ t\<lparr>column := Done\<rparr> # post
         \<and> columnTasks (moveTask ''task-3'' Done initialTasks) Done
             = filter (\<lambda>x. column x = Done) pre
               @ t\<lparr>column := Done\<rparr>
               # filter (\<lambda>x. column x = Done) post)"
proof -
  have h: "''task-3'' \<in> task_id ` set initialTasks"
    by (simp add: initialTasks_def)
  from h moveTask_position [OF h, of Done] show ?thesis by simp
qed

text \<open>
  C5: for every task sequence and every id that no task of it carries, MoveTask,
  UpdateTask (with any replacement task carrying that id) and DeleteTask return the task
  sequence unchanged; the mutators have no failing branch, so no error is raised.
\<close>

theorem unknown_id_noop:
  assumes "taskId \<notin> task_id ` set tasks"
  shows "moveTask taskId targetColumn tasks = tasks
       \<and> handleUpdateTask (updatedTask\<lparr>task_id := taskId\<rparr>) tasks = tasks
       \<and> handleDeleteTask taskId tasks = tasks"
proof -
  have "findIndex (\<lambda>t. task_id t = taskId) tasks = None"
    using assms by (auto simp: findIndex_None_iff)
  then show ?thesis
    by (simp add: moveTask_def handleUpdateTask_def handleDeleteTask_def)
qed

theorem unknown_id_noop_witness:
  "''task-9'' \<notin> task_id ` set initialTasks
   \<and> moveTask ''task-9'' Done initialTasks = initialTasks
   \<and> handleUpdateTask \<lparr>task_id = ''task-9'', column = Done, title = ''Retrospective'',
        description = ''Collect the notes.'', points = None, attachments = None\<rparr> initialTasks
       = initialTasks
   \<and> handleDeleteTask ''task-9'' initialTasks = initialTasks"
proof -
  have h: "''task-9'' \<notin> task_id ` set initialTasks"
    by (simp add: initialTasks_def)
  from h unknown_id_noop [OF h, of Done
      "\<lparr>task_id = ''task-9'', column = Done, title = ''Retrospective'',
        description = ''Collect the notes.'', points = None, attachments = None\<rparr>"]
  show ?thesis by simp
qed

lemma trim_empty_iff: "trim s = [] \<longleftrightarrow> (\<forall>ch\<in>set s. isWhiteSpace ch)"
proof -
  have "trim s = [] \<longleftrightarrow> dropWhile isWhiteSpace (rev (dropWhile isWhiteSpace s)) = []"
    by (simp add: trim_def)
  also have "\<dots> \<longleftrightarrow> (\<forall>ch\<in>set (dropWhile isWhiteSpace s). isWhiteSpace ch)"
    by (simp add: dropWhile_eq_Nil_conv)
  also have "\<dots> \<longleftrightarrow> dropWhile isWhiteSpace s = []"
  proof
    assume a: "\<forall>ch\<in>set (dropWhile isWhiteSpace s). isWhiteSpace ch"
    show "dropWhile isWhiteSpace s = []"
    proof (cases "dropWhile isWhiteSpace s")
      case Nil
      then show ?thesis .
    next
      case (Cons c cs)
      then have "\<not> isWhiteSpace c" by (metis hd_dropWhile list.sel(1) list.distinct(1))
      moreover have "isWhiteSpace c" using a Cons by simp
      ultimately show ?thesis by simp
    qed
  next
    assume "dropWhile isWhiteSpace s = []"
    then have "set (dropWhile isWhiteSpace s) = {}" by (simp only: set_empty2 list.set)
    then show "\<forall>ch\<in>set (dropWhile isWhiteSpace s). isWhiteSpace ch" by (metis empty_iff)
  qed
  also have "\<dots> \<longleftrightarrow> (\<forall>ch\<in>set s. isWhiteSpace ch)"
    by (simp add: dropWhile_eq_Nil_conv)
  finally show ?thesis .
qed

text \<open>
  C6 (as stated, refuted): a title of one space is not empty, and neither is the
  description, yet the form rejects the submission and the task collection stays empty.
\<close>

theorem AddTask_whitespace_counterexample:
  "form_title \<lparr>form_title = '' '', form_description = ''d'', form_points = None\<rparr> \<noteq> []
   \<and> form_description \<lparr>form_title = '' '', form_description = ''d'', form_points = None\<rparr> \<noteq> []
   \<and> AddTask 1730000000000
        \<lparr>form_title = '' '', form_description = ''d'', form_points = None\<rparr> [] = []"
  by (simp add: AddTask_def NewTaskModal_handleSubmit_def trim_def isWhiteSpace_def)

text \<open>
  C6 (amended): for every task sequence, AddTask invoked with a title or a description
  that is empty or consists of white space only is rejected and not applied: the task
  collection (in particular its length) is unchanged; with a title and a description
  that each hold a character other than white space it appends exactly one new task,
  in the backlog, with the submitted fields and no attachments.
\<close>

theorem AddTask_validation:
  "((\<forall>ch\<in>set (form_title form). isWhiteSpace ch)
      \<or> (\<forall>ch\<in>set (form_description form). isWhiteSpace ch)
     \<longrightarrow> AddTask now form tasks = tasks)
   \<and> ((\<exists>ch\<in>set (form_title form). \<not> isWhiteSpace ch)
      \<and> (\<exists>ch\<in>set (form_description form). \<not> isWhiteSpace ch)
     \<longrightarrow> AddTask now form tasks
           = tasks @ [\<lparr>task_id = ''task-'' @ string_of_nat now, column = Backlog,
                       title = form_title form, description = form_description form,
                       points = form_points form, attachments = Some []\<rparr>]
       \<and> length (AddTask now form tasks) = length tasks + 1)"
  by (auto simp: AddTask_def NewTaskModal_handleSubmit_def handleAddTask_def trim_empty_iff)

theorem AddTask_validation_witness:
  "AddTask 1730000000000
     \<lparr>form_title = [], form_description = ''Write the notes.'', form_points = Some 2\<rparr>
     initialTasks = initialTasks
   \<and> AddTask 1730000000000
     \<lparr>form_title = ''Notes'', form_description = ''Write the notes.'', form_points = Some 2\<rparr>
     initialTasks
     = initialTasks @ [\<lparr>task_id = ''task-1730000000000'', column = Backlog,
                       title = ''Notes'', description = ''Write the notes.'',
                       points = Some 2, attachments = Some []\<rparr>]"
  using AddTask_validation [of
      "\<lparr>form_title = [], form_description = ''Write the notes.'', form_points = Some 2\<rparr>"
      1730000000000 initialTasks]
    AddTask_validation [of
      "\<lparr>form_title = ''Notes'', form_description = ''Write the notes.'', form_points = Some 2\<rparr>"
      1730000000000 initialTasks]
  by (simp add: isWhiteSpace_def string_of_nat_clock)

lemma map_task_id_moveTask: "map task_id (moveTask taskId c tasks) = map task_id tasks"
proof (cases "findIndex (\<lambda>t. task_id t = taskId) tasks")
  case None
  then show ?thesis by (simp add: moveTask_def)
next
  case (Some i)
  from findIndex_Some_split [OF Some] obtain pre x post where
    *: "tasks = pre @ x # post" "task_id x = taskId" "\<forall>y\<in>set pre. task_id y \<noteq> taskId"
    by blast
  then have "taskId \<notin> task_id ` set pre" by auto
  from moveTask_first [OF *(2) this] * show ?thesis by simp
qed

lemma map_task_id_handleUpdateTask:
  "map task_id (handleUpdateTask u tasks) = map task_id tasks"
proof (cases "findIndex (\<lambda>t. task_id t = task_id u) tasks")
  case None
  then show ?thesis by (simp add: handleUpdateTask_def)
next
  case (Some i)
  from findIndex_Some_split [OF Some] obtain pre x post where
    *: "tasks = pre @ x # post" "task_id x = task_id u" "\<forall>y\<in>set pre. task_id y \<noteq> task_id u"
    by blast
  then have "task_id u \<notin> task_id ` set pre" by auto
  from handleUpdateTask_first [OF *(2) this] * show ?thesis by simp
qed

lemma distinct_handleDeleteTask:
  assumes "distinct (map task_id tasks)"
  shows "distinct (map task_id (handleDeleteTask taskId tasks))"
proof (cases "findIndex (\<lambda>t. task_id t = taskId) tasks")
  case None
  with assms show ?thesis by (simp add: handleDeleteTask_def)
next
  case (Some i)
  from findIndex_Some_split [OF Some] obtain pre x post where
    "tasks = pre @ x # post" "length pre = i" by blast
  with assms Some show ?thesis by (auto simp: handleDeleteTask_def)
qed

text \<open>
  C9 (as stated, refuted): two tasks added to the empty board at the same clock value
  get the same id. The board after the first add has pairwise distinct ids, the board
  after the second has not.
\<close>

theorem same_clock_ids_counterexample:
  "distinct (map task_id (handleAddTask 1730000000000
       \<lparr>td_title = ''A'', td_description = ''a'', td_points = None\<rparr> []))
   \<and> \<not> distinct (map task_id (handleAddTask 1730000000000
       \<lparr>td_title = ''B'', td_description = ''b'', td_points = None\<rparr>
       (handleAddTask 1730000000000
          \<lparr>td_title = ''A'', td_description = ''a'', td_points = None\<rparr> [])))"
  by (simp add: handleAddTask_def)

text \<open>
  C9 (amended): starting from a task collection whose ids are pairwise distinct,
  UpdateTask, DeleteTask and MoveTask yield a collection whose ids are again pairwise
  distinct, and so does AddTask provided the id it generates from the clock,
  \<^verbatim>\<open>`task-${Date.now()}`\<close>, is not already the id of a task of the collection.
\<close>

theorem task_ids_distinct_preserved:
  assumes "distinct (map task_id tasks)"
  shows "(''task-'' @ string_of_nat now \<notin> task_id ` set tasks
            \<longrightarrow> distinct (map task_id (handleAddTask now taskData tasks))
              \<and> distinct (map task_id (AddTask now form tasks)))
       \<and> distinct (map task_id (handleUpdateTask updatedTask tasks))
       \<and> distinct (map task_id (handleDeleteTask taskId tasks))
       \<and> distinct (map task_id (moveTask taskId targetColumn tasks))"
  using assms distinct_handleDeleteTask [OF assms, of taskId]
  by (simp add: map_task_id_moveTask map_task_id_handleUpdateTask handleAddTask_def
        AddTask_def NewTaskModal_handleSubmit_def)

theorem task_ids_distinct_preserved_witness:
  "distinct (map task_id initialTasks)
   \<and> ''task-'' @ string_of_nat 1730000000000 \<notin> task_id ` set initialTasks
   \<and> distinct (map task_id (handleAddTask 1730000000000
        \<lparr>td_title = ''Notes'', td_description = ''Write the notes.'', td_points = None\<rparr>
        initialTasks))
   \<and> distinct (map task_id (handleUpdateTask
        \<lparr>task_id = ''task-4'', column = Done, title = ''Develop Landing Page'',
         description = ''Built.'', points = Some 3, attachments = Some []\<rparr> initialTasks))
   \<and> distinct (map task_id (handleDeleteTask ''task-2'' initialTasks))
   \<and> distinct (map task_id (moveTask ''task-2'' InProgress initialTasks))"
proof -
  have h: "distinct (map task_id initialTasks)"
    by (simp add: initialTasks_def)
  have fresh: "''task-'' @ string_of_nat 1730000000000 \<notin> task_id ` set initialTasks"
    by (simp add: initialTasks_def string_of_nat_clock)
  from h fresh task_ids_distinct_preserved [OF h, of 1730000000000
      "\<lparr>td_title = ''Notes'', td_description = ''Write the notes.'', td_points = None\<rparr>"
      "\<lparr>form_title = ''Notes'', form_description = ''Write the notes.'', form_points = None\<rparr>"
      "\<lparr>task_id = ''task-4'', column = Done, title = ''Develop Landing Page'',
         description = ''Built.'', points = Some 3, attachments = Some []\<rparr>"
      "''task-2''" InProgress]
  show ?thesis by simp
qed

section \<open>Burndown calculator: proofs\<close>

lemma sprintDurationDays_div:
  "sprintDurationDays sprint = nat (- (- \<bar>endDate sprint - startDate sprint\<bar> div 86400000))"
proof -
  have "\<lceil>(of_int \<bar>endDate sprint - startDate sprint\<bar> :: rat) / of_int 86400000\<rceil>
          = - (- \<bar>endDate sprint - startDate sprint\<bar> div 86400000)"
    by (rule ceiling_divide_eq_div)
  then show ?thesis by (simp add: sprintDurationDays_def)
qed

lemma burndownLoop_append:
  "burndownLoop tasks totalPts perDay days i data
     = data @ map (burndownEntry tasks totalPts perDay) [i..<Suc days]"
proof (induction tasks totalPts perDay days i data rule: burndownLoop.induct)
  case (1 tasks totalPts perDay days i data)
  show ?case
  proof (cases "i \<le> days")
    case True
    then have "[i..<Suc days] = i # [Suc i..<Suc days]"
      by (simp add: upt_conv_Cons)
    with True "1.IH" show ?thesis
      by (subst burndownLoop.simps) simp
  next
    case False
    then show ?thesis by (subst burndownLoop.simps) simp
  qed
qed

lemma burndownData_unfold:
  "burndownData tasks sprint
     = \<lparr>day = 0, remaining = totalPoints tasks, ideal = of_int (totalPoints tasks)\<rparr>
       # map (burndownEntry tasks (totalPoints tasks)
                (pointsPerDay (totalPoints tasks) (sprintDurationDays sprint)))
             [1..<Suc (sprintDurationDays sprint)]"
  by (simp add: burndownData_def Let_def burndownLoop_append)

lemma foldl_add_pts: "foldl (\<lambda>sum task. sum + pts task) a xs = a + sum_list (map pts xs)"
  by (induction xs arbitrary: a) simp_all

lemma totalPoints_sum:
  "totalPoints tasks = sum_list (map pts (filter (\<lambda>t. column t \<noteq> Backlog) tasks))"
  by (simp add: totalPoints_def foldl_add_pts)

lemma completedPoints_sum:
  "completedPoints tasks = sum_list (map pts (filter (\<lambda>t. column t = Done) tasks))"
  by (simp add: completedPoints_def foldl_add_pts)

lemma burndownData_nth:
  assumes "1 \<le> i" and "i \<le> sprintDurationDays sprint"
  shows "burndownData tasks sprint ! i
           = burndownEntry tasks (totalPoints tasks)
               (pointsPerDay (totalPoints tasks) (sprintDurationDays sprint)) i"
proof -
  from assms obtain k where k: "i = Suc k" "k < sprintDurationDays sprint"
    by (cases i) auto
  then have "[1..<Suc (sprintDurationDays sprint)] ! k = Suc k"
    using nth_upt [of 1 k "Suc (sprintDurationDays sprint)"] by simp
  with k show ?thesis by (simp add: burndownData_unfold del: upt_Suc)
qed

text \<open>
  C2: for every task sequence and every pair of sprint dates, the burndown series has
  exactly durationDays + 1 entries, and their day values are 0, 1, ..., durationDays in
  this order, hence strictly ascending from 0.
\<close>

theorem burndownData_days:
  "length (burndownData tasks sprint) = sprintDurationDays sprint + 1
   \<and> map day (burndownData tasks sprint) = [0..<sprintDurationDays sprint + 1]
   \<and> sorted_wrt (<) (map day (burndownData tasks sprint))"
proof -
  have "map day (map (burndownEntry tasks (totalPoints tasks)
                (pointsPerDay (totalPoints tasks) (sprintDurationDays sprint)))
             [1..<Suc (sprintDurationDays sprint)]) = [1..<Suc (sprintDurationDays sprint)]"
    by (simp add: burndownEntry_def o_def del: upt_Suc)
  then have days: "map day (burndownData tasks sprint) = [0..<sprintDurationDays sprint + 1]"
    by (simp add: burndownData_unfold upt_conv_Cons del: upt_Suc)
  have "length (map day (burndownData tasks sprint)) = sprintDurationDays sprint + 1"
    by (simp only: days length_upt)
  then have len: "length (burndownData tasks sprint) = sprintDurationDays sprint + 1"
    by simp
  have "sorted_wrt (<) (map day (burndownData tasks sprint))"
    by (simp only: days sorted_wrt_upt)
  with days len show ?thesis by blast
qed

theorem burndownData_days_witness:
  "length (burndownData initialTasks initialSprint) = 15
   \<and> map day (burndownData initialTasks initialSprint) = [0..<15]"
  using burndownData_days [of initialTasks initialSprint]
  by (simp add: sprintDurationDays_div initialSprint_def)

text \<open>
  C8: for every task sequence and sprint dates, the day-0 entry has remaining equal to
  the sum of points over the tasks outside the backlog, an absent points value counting
  0, and every entry of day 1 to durationDays has remaining equal to that sum minus the
  sum of points over the tasks in the done column: the same value on each of these days.
\<close>

theorem burndownData_remaining:
  "remaining (burndownData tasks sprint ! 0)
     = sum_list (map (\<lambda>t. case points t of None \<Rightarrow> 0 | Some p \<Rightarrow> p)
         (filter (\<lambda>t. column t \<noteq> Backlog) tasks))
   \<and> (\<forall>i. 1 \<le> i \<and> i \<le> sprintDurationDays sprint \<longrightarrow>
         remaining (burndownData tasks sprint ! i)
           = sum_list (map (\<lambda>t. case points t of None \<Rightarrow> 0 | Some p \<Rightarrow> p)
               (filter (\<lambda>t. column t \<noteq> Backlog) tasks))
             - sum_list (map (\<lambda>t. case points t of None \<Rightarrow> 0 | Some p \<Rightarrow> p)
                 (filter (\<lambda>t. column t = Done) tasks)))"
proof -
  have p: "(\<lambda>t. case points t of None \<Rightarrow> 0 | Some p \<Rightarrow> p) = pts"
    by (rule ext) (simp add: pts_def)
  have zero: "remaining (burndownData tasks sprint ! 0) = totalPoints tasks"
    by (simp add: burndownData_unfold)
  have later: "remaining (burndownData tasks sprint ! i) = totalPoints tasks - completedPoints tasks"
    if "1 \<le> i" "i \<le> sprintDurationDays sprint" for i
    using that by (simp add: burndownData_nth burndownEntry_def)
  from zero later show ?thesis
    by (simp only: p totalPoints_sum completedPoints_sum) blast
qed

text \<open>
  The initial board with task-2, which has no points, pulled from the backlog into the
  to-do column: the task is counted, with 0 points. The total stays 15 and, with the 2
  points of the done column taken off, 13 remain on every later day.
\<close>

theorem burndownData_remaining_witness:
  "points (moveTask ''task-2'' Todo initialTasks ! 1) = None
   \<and> column (moveTask ''task-2'' Todo initialTasks ! 1) = Todo
   \<and> remaining (burndownData (moveTask ''task-2'' Todo initialTasks) initialSprint ! 0) = 15
   \<and> remaining (burndownData (moveTask ''task-2'' Todo initialTasks) initialSprint ! 1) = 13
   \<and> remaining (burndownData (moveTask ''task-2'' Todo initialTasks) initialSprint ! 14) = 13"
proof -
  let ?tasks = "moveTask ''task-2'' Todo initialTasks"
  have d: "sprintDurationDays initialSprint = 14"
    by (simp add: sprintDurationDays_div initialSprint_def)
  have moved: "points (?tasks ! 1) = None \<and> column (?tasks ! 1) = Todo"
    by (simp add: initialTasks_def moveTask_def)
  have total: "sum_list (map (\<lambda>t. case points t of None \<Rightarrow> 0 | Some p \<Rightarrow> p)
      (filter (\<lambda>t. column t \<noteq> Backlog) ?tasks)) = 15"
    by (simp add: initialTasks_def moveTask_def)
  have completed: "sum_list (map (\<lambda>t. case points t of None \<Rightarrow> 0 | Some p \<Rightarrow> p)
      (filter (\<lambda>t. column t = Done) ?tasks)) = 2"
    by (simp add: initialTasks_def moveTask_def)
  from burndownData_remaining [of ?tasks initialSprint] d total completed moved
  show ?thesis by simp
qed

subsection \<open>Rounding to a double\<close>

lemma roundHalfEven_of_int: "roundHalfEven (of_int n) = n"
  by (simp add: roundHalfEven_def)



lemma roundHalfEven_divide:
  assumes "0 < b"
  shows "roundHalfEven (of_int a / of_int b) =
           (if 2 * (a mod b) < b then a div b
            else if b < 2 * (a mod b) then a div b + 1
            else if even (a div b) then a div b else a div b + 1)"
proof -
  have fl: "\<lfloor>(of_int a :: rat) / of_int b\<rfloor> = a div b"
    by (rule floor_divide_of_int_eq)
  have "(of_int a :: rat) = of_int (a div b) * of_int b + of_int (a mod b)"
    by (metis div_mult_mod_eq of_int_add of_int_mult)
  with assms have r: "(of_int a :: rat) / of_int b - of_int (a div b) = of_int (a mod b) / of_int b"
    by (simp add: field_simps)
  from assms have lt: "(of_int (a mod b) :: rat) / of_int b < 1 / 2 \<longleftrightarrow> 2 * (a mod b) < b"
    by (simp add: field_simps) (metis of_int_less_iff of_int_mult of_int_numeral mult.commute)
  from assms have gt: "1 / 2 < (of_int (a mod b) :: rat) / of_int b \<longleftrightarrow> b < 2 * (a mod b)"
    by (simp add: field_simps) (metis of_int_less_iff of_int_mult of_int_numeral mult.commute)
  show ?thesis
    by (simp only: roundHalfEven_def Let_def fl r lt gt)
qed


lemma doubleQuantum_lower:
  assumes "0 < doubleQuantum X"
  shows "2 ^ (52 + doubleQuantum X) \<le> X"
proof -
  let ?n = "\<lfloor>X\<rfloor>"
  from assms have b: "bitlen ?n = 53 + int (doubleQuantum X)"
    by (simp add: doubleQuantum_def)
  then have "53 + int (doubleQuantum X) \<le> bitlen ?n" by simp
  then have "2 ^ (nat (53 + int (doubleQuantum X)) - 1) \<le> ?n"
    by (simp add: bitlen_ge_iff_power)
  moreover have "nat (53 + int (doubleQuantum X)) - 1 = 52 + doubleQuantum X"
    by (simp add: nat_add_distrib)
  ultimately have "2 ^ (52 + doubleQuantum X) \<le> ?n" by simp
  then have "(2 :: rat) ^ (52 + doubleQuantum X) \<le> of_int ?n"
    using of_int_le_iff [of "2 ^ (52 + doubleQuantum X)" ?n, where ?'a = rat] by simp
  moreover have "of_int ?n \<le> X" by (rule of_int_floor_le)
  ultimately show ?thesis by (rule order_trans)
qed


lemma doubleQuantum_eqI:
  assumes "2 ^ (52 + k) \<le> X" and "X < 2 ^ (53 + k)"
  shows "doubleQuantum X = k"
proof -
  let ?n = "\<lfloor>X\<rfloor>"
  have "(of_int (2 ^ (52 + k)) :: rat) \<le> X" using assms(1) by simp
  then have lo: "2 ^ (52 + k) \<le> ?n" by (simp only: le_floor_iff)
  have hi: "?n < 2 ^ (53 + k)"
    using assms(2) by (simp add: floor_less_iff)
  from hi have "bitlen ?n \<le> 53 + int k"
    by (simp add: bitlen_le_iff_power nat_add_distrib)
  moreover from lo have "53 + int k \<le> bitlen ?n"
    by (simp add: bitlen_ge_iff_power nat_add_distrib)
  ultimately show ?thesis by (simp add: doubleQuantum_def)
qed







lemma roundSignificand_exact:
  assumes "0 \<le> m" and "m < 2 ^ 53"
  shows "roundSignificand (of_int m * 2 ^ j) = of_int m * 2 ^ j"
proof -
  let ?X = "(of_int m :: rat) * 2 ^ j"
  let ?k = "doubleQuantum ?X"
  have le: "?k \<le> j"
  proof (rule ccontr)
    assume "\<not> ?k \<le> j"
    then have gt: "j < ?k" by simp
    then have "0 < ?k" by simp
    then have "2 ^ (52 + ?k) \<le> ?X" by (rule doubleQuantum_lower)
    moreover from assms(2) have "(of_int m :: rat) < 2 ^ 53"
      using of_int_less_iff [of m "2 ^ 53", where ?'a = rat] by simp
    then have "?X < 2 ^ 53 * 2 ^ j" by simp
    then have "?X < 2 ^ (53 + j)" by (simp add: power_add)
    moreover from gt have "53 + j \<le> 52 + ?k" by simp
    then have "(2 :: rat) ^ (53 + j) \<le> 2 ^ (52 + ?k)" by (rule power_increasing) simp
    ultimately show False by linarith
  qed
  then have "?X / 2 ^ ?k = of_int m * 2 ^ (j - ?k)"
    by (simp add: power_diff)
  also have "\<dots> = of_int (m * 2 ^ (j - ?k))" by simp
  finally have "roundHalfEven (?X / 2 ^ ?k) = m * 2 ^ (j - ?k)"
    by (simp only: roundHalfEven_of_int)
  then have "roundSignificand ?X = of_int (m * 2 ^ (j - ?k)) * 2 ^ ?k"
    by (simp add: roundSignificand_def)
  also have "\<dots> = of_int m * (2 ^ (j - ?k) * 2 ^ ?k)" by simp
  also from le have "2 ^ (j - ?k) * (2 :: rat) ^ ?k = 2 ^ j"
    by (simp flip: power_add)
  finally show ?thesis .
qed

lemma toDouble_minus: "toDouble (- x) = - toDouble x"
  by (simp add: toDouble_def sgn_minus)

lemma toDouble_zero: "toDouble 0 = 0"
  by (simp add: toDouble_def)


lemma toDouble_pos_eq:
  assumes "0 \<le> x"
  shows "toDouble x = roundSignificand (x * 2 ^ 1074) / 2 ^ 1074"
proof (cases "x = 0")
  case True
  have "roundSignificand 0 = 0"
    using roundSignificand_exact [of 0 0] by simp
  with True show ?thesis by (simp add: toDouble_def)
next
  case False
  with assms show ?thesis by (simp add: toDouble_def sgn_if)
qed



lemma toDouble_of_int:
  assumes "\<bar>n\<bar> < 2 ^ 53"
  shows "toDouble (of_int n) = of_int n"
proof -
  have pos: "toDouble (of_int m) = of_int m" if "0 \<le> m" "m < 2 ^ 53" for m
  proof -
    from that have "roundSignificand (of_int m * 2 ^ 1074) = of_int m * 2 ^ 1074"
      by (rule roundSignificand_exact)
    with that(1) show ?thesis by (simp add: toDouble_pos_eq)
  qed
  show ?thesis
  proof (cases "0 \<le> n")
    case True
    with assms show ?thesis by (intro pos) simp_all
  next
    case False
    with assms have "toDouble (of_int (- n)) = of_int (- n)" by (intro pos) simp_all
    then show ?thesis by (simp add: toDouble_minus)
  qed
qed

text \<open>
  Evaluation at a positive quotient of integers whose double has the quantum \<open>2^-n\<close>.
\<close>

lemma toDouble_ratio:
  assumes "0 < a" and "0 < b" and "n \<le> 1074"
    and "2 ^ 52 * b \<le> a * 2 ^ n" and "a * 2 ^ n < 2 ^ 53 * b"
  shows "toDouble (of_int a / of_int b)
           = of_int (if 2 * ((a * 2 ^ n) mod b) < b then (a * 2 ^ n) div b
                     else if b < 2 * ((a * 2 ^ n) mod b) then (a * 2 ^ n) div b + 1
                     else if even ((a * 2 ^ n) div b) then (a * 2 ^ n) div b
                     else (a * 2 ^ n) div b + 1) / 2 ^ n"
proof -
  let ?x = "(of_int a :: rat) / of_int b"
  let ?k = "1074 - n"
  define S :: rat where "S = 2 ^ 1074"
  from assms(1,2) have pos: "0 \<le> ?x" by simp
  from assms(3) have "n + ?k = 1074" by simp
  then have split: "S = 2 ^ n * 2 ^ ?k"
    by (simp only: S_def flip: power_add)
  have "(of_int (2 ^ 52 * b) :: rat) \<le> of_int (a * 2 ^ n)"
    using assms(4) by (simp only: of_int_le_iff)
  with assms(2) have lo: "2 ^ 52 \<le> ?x * 2 ^ n"
    by (simp add: field_simps)
  have "(of_int (a * 2 ^ n) :: rat) < of_int (2 ^ 53 * b)"
    using assms(5) by (simp only: of_int_less_iff)
  with assms(2) have hi: "?x * 2 ^ n < 2 ^ 53"
    by (simp add: field_simps)
  from lo have "2 ^ 52 * 2 ^ ?k \<le> ?x * 2 ^ n * 2 ^ ?k"
    by (rule mult_right_mono) simp
  then have lo': "2 ^ (52 + ?k) \<le> ?x * S"
    by (simp only: split power_add mult.assoc)
  from hi have "?x * 2 ^ n * 2 ^ ?k < 2 ^ 53 * 2 ^ ?k"
    by (rule mult_strict_right_mono) simp
  then have hi': "?x * S < 2 ^ (53 + ?k)"
    by (simp only: split power_add mult.assoc)
  from lo' hi' have k: "doubleQuantum (?x * S) = ?k"
    by (rule doubleQuantum_eqI)
  have scaled: "?x * S / 2 ^ ?k = of_int (a * 2 ^ n) / of_int b"
    by (simp add: split)
  have "toDouble ?x = roundSignificand (?x * S) / S"
    by (simp only: S_def toDouble_pos_eq [OF pos])
  also have "\<dots> = of_int (roundHalfEven (of_int (a * 2 ^ n) / of_int b)) * 2 ^ ?k / S"
    by (simp only: roundSignificand_def k scaled)
  also have "\<dots> = of_int (roundHalfEven (of_int (a * 2 ^ n) / of_int b)) / 2 ^ n"
    by (simp add: split)
  finally show ?thesis
    by (simp only: roundHalfEven_divide [OF assms(2)])
qed

lemma toDouble_numeral:
  "numeral w < (2 :: int) ^ 53 \<Longrightarrow> toDouble (numeral w) = numeral w"
  using toDouble_of_int [of "numeral w"] by simp


subsection \<open>The ideal line\<close>



lemma Math_round_of_int: "Math_round (of_int n) = n"
proof -
  have "\<lfloor>(of_int n :: rat) + 1 / 2\<rfloor> = n" by linarith
  then show ?thesis by (simp add: Math_round_def)
qed

lemma Math_round_numeral: "Math_round (numeral n) = numeral n"
  using Math_round_of_int [of "numeral n"] by simp


lemma Math_round_zero: "Math_round 0 = 0"
  using Math_round_of_int [of 0] by simp

lemma Math_round_divide:
  assumes "0 < b"
  shows "Math_round (of_int a / of_int b) = (2 * a + b) div (2 * b)"
proof -
  from assms have "(of_int a :: rat) / of_int b + 1 / 2 = of_int (2 * a + b) / of_int (2 * b)"
    by (simp add: field_simps)
  then show ?thesis
    by (simp only: Math_round_def floor_divide_of_int_eq)
qed

text \<open>
  The worked example of the specification: a sprint of two days and ten points outside
  the backlog, none of them done, gives the ideal values 10, 5 and 0.
\<close>

lemma burndownData_example:
  "burndownData
     [\<lparr>task_id = ''task-1'', column = Todo, title = ''A'', description = ''a'',
        points = Some 10, attachments = Some []\<rparr>]
     \<lparr>sprint_id = ''sprint-1'', sprint_name = ''Sprint 1'', startDate = 0,
      endDate = 172800000, goal = ''g''\<rparr>
   = [\<lparr>day = 0, remaining = 10, ideal = 10\<rparr>,
      \<lparr>day = 1, remaining = 10, ideal = 5\<rparr>,
      \<lparr>day = 2, remaining = 10, ideal = 0\<rparr>]"
  by (simp add: burndownData_unfold sprintDurationDays_div totalPoints_sum completedPoints_sum
        pts_def pointsPerDay_def burndownEntry_def Math_round_numeral Math_round_zero
        toDouble_numeral toDouble_zero upt_conv_Cons del: upt_Suc)

text \<open>
  One point over twenty days, day 7. The quotient 1/20 is not a double and the errors
  of the four operations add up to a product just below 6.5, which
  \<^verbatim>\<open>Math.round\<close> takes down to 6: the ideal value is the double printed as
  \<^verbatim>\<open>0.6\<close>, where exact arithmetic would give 0.7.
\<close>

lemma burndownData_double_example:
  "ideal (burndownData
     [\<lparr>task_id = ''task-1'', column = Todo, title = ''A'', description = ''a'',
        points = Some 1, attachments = Some []\<rparr>]
     \<lparr>sprint_id = ''sprint-1'', sprint_name = ''Sprint 1'', startDate = 0,
      endDate = 1728000000, goal = ''g''\<rparr> ! 7)
   = 5404319552844595 / 9007199254740992"
proof -
  let ?tasks = "[\<lparr>task_id = ''task-1'', column = Todo, title = ''A'', description = ''a'',
        points = Some 1, attachments = Some []\<rparr>]"
  let ?sprint = "\<lparr>sprint_id = ''sprint-1'', sprint_name = ''Sprint 1'', startDate = 0,
      endDate = 1728000000, goal = ''g''\<rparr>"
  have d: "sprintDurationDays ?sprint = 20"
    by (simp add: sprintDurationDays_div)
  have t: "totalPoints ?tasks = 1"
    by (simp add: totalPoints_sum pts_def)
  have perDay: "toDouble (1 / 20) = 3602879701896397 / 72057594037927936"
    using toDouble_ratio [of 1 20 57] by simp
  have product: "toDouble (25220157913274779 / 72057594037927936)
      = 6305039478318695 / 18014398509481984"
    using toDouble_ratio [of 25220157913274779 72057594037927936 54] by simp
  have difference: "toDouble (11709359031163289 / 18014398509481984)
      = 1463669878895411 / 2251799813685248"
    using toDouble_ratio [of 11709359031163289 18014398509481984 53] by simp
  have tenfold: "toDouble (7318349394477055 / 1125899906842624)
      = 7318349394477055 / 1125899906842624"
    using toDouble_ratio [of 7318349394477055 1125899906842624 50] by simp
  have rounded: "Math_round (7318349394477055 / 1125899906842624) = 6"
    using Math_round_divide [of 1125899906842624 7318349394477055] by simp
  have tenth: "toDouble (3 / 5) = 5404319552844595 / 9007199254740992"
    using toDouble_ratio [of 3 5 53] by simp
  have "ideal (burndownData ?tasks ?sprint ! 7)
      = ideal (burndownEntry ?tasks 1 (pointsPerDay 1 20) 7)"
    using burndownData_nth [of 7 ?sprint ?tasks] d t by simp
  also have "\<dots> = 5404319552844595 / 9007199254740992"
    by (simp add: burndownEntry_def pointsPerDay_def perDay product difference tenfold
          rounded tenth)
  finally show ?thesis .
qed








text \<open>
  C7 (as stated, refuted): a sprint that starts two days after it ends is accepted by
  the mutator, and its burndown has durationDays = 2 and the three days 0, 1, 2: the
  duration is taken from the absolute difference of the dates.
\<close>

theorem reversed_dates_counterexample:
  "endDate (handleUpdateSprint
       \<lparr>sprint_id = ''sprint-1'', sprint_name = ''Sprint 1'', startDate = 172800000,
        endDate = 0, goal = ''g''\<rparr> initialSprint)
     < startDate (handleUpdateSprint
       \<lparr>sprint_id = ''sprint-1'', sprint_name = ''Sprint 1'', startDate = 172800000,
        endDate = 0, goal = ''g''\<rparr> initialSprint)
   \<and> sprintDurationDays (handleUpdateSprint
       \<lparr>sprint_id = ''sprint-1'', sprint_name = ''Sprint 1'', startDate = 172800000,
        endDate = 0, goal = ''g''\<rparr> initialSprint) = 2
   \<and> map day (burndownData [] (handleUpdateSprint
       \<lparr>sprint_id = ''sprint-1'', sprint_name = ''Sprint 1'', startDate = 172800000,
        endDate = 0, goal = ''g''\<rparr> initialSprint)) = [0, 1, 2]"
  by (simp add: handleUpdateSprint_def burndownData_unfold sprintDurationDays_div
        burndownEntry_def upt_conv_Cons del: upt_Suc)

lemma sprintDurationDays_zero_iff:
  "sprintDurationDays sprint = 0 \<longleftrightarrow> startDate sprint = endDate sprint"
proof -
  have "- (- \<bar>endDate sprint - startDate sprint\<bar> div 86400000) \<le> 0
          \<longleftrightarrow> \<bar>endDate sprint - startDate sprint\<bar> \<le> 0"
    by (simp add: pos_imp_zdiv_nonneg_iff)
  then show ?thesis by (auto simp: sprintDurationDays_div)
qed

text \<open>
  C7 (amended): UpdateSprint performs no date-ordering check (it replaces the sprint by
  its argument, whatever the dates); applied with reversed dates it yields the same
  durationDays as with the two dates exchanged, at least 1, and a burndown of at least
  two points; the degenerate burndown with durationDays = 0 and the single day-0 point
  arises when startDate equals endDate.
\<close>

theorem handleUpdateSprint_no_check:
  "handleUpdateSprint updatedSprint sprint = updatedSprint
   \<and> sprintDurationDays (handleUpdateSprint updatedSprint sprint)
       = sprintDurationDays (updatedSprint\<lparr>startDate := endDate updatedSprint,
                                            endDate := startDate updatedSprint\<rparr>)
   \<and> (endDate updatedSprint < startDate updatedSprint \<longrightarrow>
         1 \<le> sprintDurationDays (handleUpdateSprint updatedSprint sprint)
       \<and> 2 \<le> length (burndownData tasks (handleUpdateSprint updatedSprint sprint)))
   \<and> (sprintDurationDays (handleUpdateSprint updatedSprint sprint) = 0
        \<longleftrightarrow> startDate updatedSprint = endDate updatedSprint)
   \<and> (startDate updatedSprint = endDate updatedSprint \<longrightarrow>
         sprintDurationDays (handleUpdateSprint updatedSprint sprint) = 0
       \<and> burndownData tasks (handleUpdateSprint updatedSprint sprint)
           = [\<lparr>day = 0, remaining = totalPoints tasks, ideal = of_int (totalPoints tasks)\<rparr>])"
proof -
  have swap: "sprintDurationDays updatedSprint
       = sprintDurationDays (updatedSprint\<lparr>startDate := endDate updatedSprint,
                                            endDate := startDate updatedSprint\<rparr>)"
    by (simp add: sprintDurationDays_def abs_minus_commute)
  have pos: "1 \<le> sprintDurationDays updatedSprint"
    if "endDate updatedSprint < startDate updatedSprint"
    using that sprintDurationDays_zero_iff [of updatedSprint] by (cases "sprintDurationDays updatedSprint") auto
  have len: "length (burndownData tasks updatedSprint) = sprintDurationDays updatedSprint + 1"
    by (simp add: burndownData_unfold)
  have eq: "burndownData tasks updatedSprint
           = [\<lparr>day = 0, remaining = totalPoints tasks, ideal = of_int (totalPoints tasks)\<rparr>]"
    if "startDate updatedSprint = endDate updatedSprint"
    using that sprintDurationDays_zero_iff [of updatedSprint] by (simp add: burndownData_unfold)
  have mut: "handleUpdateSprint updatedSprint sprint = updatedSprint"
    by (simp add: handleUpdateSprint_def)
  show ?thesis
    unfolding mut
  proof (intro conjI impI)
    show "updatedSprint = updatedSprint" ..
    show "sprintDurationDays updatedSprint
       = sprintDurationDays (updatedSprint\<lparr>startDate := endDate updatedSprint,
                                            endDate := startDate updatedSprint\<rparr>)"
      by (rule swap)
    show "1 \<le> sprintDurationDays updatedSprint"
      if "endDate updatedSprint < startDate updatedSprint"
      using that by (rule pos)
    show "2 \<le> length (burndownData tasks updatedSprint)"
      if "endDate updatedSprint < startDate updatedSprint"
      using pos [OF that] len by simp
    show "sprintDurationDays updatedSprint = 0
            \<longleftrightarrow> startDate updatedSprint = endDate updatedSprint"
      by (rule sprintDurationDays_zero_iff)
    show "sprintDurationDays updatedSprint = 0"
      if "startDate updatedSprint = endDate updatedSprint"
      using that by (simp add: sprintDurationDays_zero_iff)
    show "burndownData tasks updatedSprint
           = [\<lparr>day = 0, remaining = totalPoints tasks, ideal = of_int (totalPoints tasks)\<rparr>]"
      if "startDate updatedSprint = endDate updatedSprint"
      using that by (rule eq)
  qed
qed

theorem handleUpdateSprint_no_check_witness:
  "endDate (initialSprint\<lparr>startDate := 1722643200000, endDate := 1721433600000\<rparr>)
     < startDate (initialSprint\<lparr>startDate := 1722643200000, endDate := 1721433600000\<rparr>)
   \<and> handleUpdateSprint
        (initialSprint\<lparr>startDate := 1722643200000, endDate := 1721433600000\<rparr>) initialSprint
       = initialSprint\<lparr>startDate := 1722643200000, endDate := 1721433600000\<rparr>
   \<and> 1 \<le> sprintDurationDays (handleUpdateSprint
        (initialSprint\<lparr>startDate := 1722643200000, endDate := 1721433600000\<rparr>) initialSprint)
   \<and> 2 \<le> length (burndownData initialTasks (handleUpdateSprint
        (initialSprint\<lparr>startDate := 1722643200000, endDate := 1721433600000\<rparr>) initialSprint))
   \<and> burndownData initialTasks (handleUpdateSprint
        (initialSprint\<lparr>endDate := 1721433600000\<rparr>) initialSprint)
       = [\<lparr>day = 0, remaining = totalPoints initialTasks,
            ideal = of_int (totalPoints initialTasks)\<rparr>]"
proof -
  let ?u = "initialSprint\<lparr>startDate := 1722643200000, endDate := 1721433600000\<rparr>"
  let ?v = "initialSprint\<lparr>endDate := 1721433600000\<rparr>"
  have h: "endDate ?u < startDate ?u"
    by simp
  have e: "startDate ?v = endDate ?v"
    by (simp add: initialSprint_def)
  note u = handleUpdateSprint_no_check [of ?u initialSprint initialTasks]
  note v = handleUpdateSprint_no_check [of ?v initialSprint initialTasks]
  from u have 1: "handleUpdateSprint ?u initialSprint = ?u"
    by blast
  from u h have 2: "1 \<le> sprintDurationDays (handleUpdateSprint ?u initialSprint)"
    by blast
  from u h have 3: "2 \<le> length (burndownData initialTasks (handleUpdateSprint ?u initialSprint))"
    by blast
  from v e have 4: "burndownData initialTasks (handleUpdateSprint ?v initialSprint)
       = [\<lparr>day = 0, remaining = totalPoints initialTasks,
            ideal = of_int (totalPoints initialTasks)\<rparr>]"
    by blast
  from h 1 2 3 4 show ?thesis by blast
qed

section \<open>AI gateway client: proofs\<close>

text \<open>
  C10: called with an empty attachment sequence, analyzeTaskAttachments returns the text
  "No attachments to analyze." for every task title, whatever the API key and however
  the service would answer; the client is not created and no request is sent (the
  gateway state is returned as it was), and the outcome is a value, not an error.
\<close>

theorem analyzeTaskAttachments_empty:
  "analyzeTaskAttachments API_KEY generateContent taskTitle [] st
     = (Inr ''No attachments to analyze.'', st)"
  by (simp add: analyzeTaskAttachments_def)

text \<open>
  With no API key configured and a service that would fail every request, the empty
  call still returns the text and leaves the gateway untouched.
\<close>

theorem analyzeTaskAttachments_empty_witness:
  "analyzeTaskAttachments None (\<lambda>request. Inl (Error ''service unavailable''))
     ''Develop Landing Page'' [] \<lparr>ai = None, requests = []\<rparr>
     = (Inr ''No attachments to analyze.'', \<lparr>ai = None, requests = []\<rparr>)"
  using analyzeTaskAttachments_empty [of None "\<lambda>request. Inl (Error ''service unavailable'')"
      "''Develop Landing Page''" "\<lparr>ai = None, requests = []\<rparr>"]
  by simp

end
